theory Spec2Isabelle
  imports Main
begin

section \<open>Data model of \<open>route.ts\<close>\<close>

text \<open>
  The source file holds two revisions of the route. The interfaces, the criterion table
  and the three pipeline functions (\<open>getTokenHoldings\<close>, \<open>checkDefiInteractions\<close>,
  \<open>checkAirdropEligibility\<close>) are the same text in both; the handlers differ and are
  modelled one by one further down.

  JavaScript numbers: counts start at 0 and grow by 1, so they are \<open>nat\<close>; the numeric
  fields of the interfaces are \<open>int\<close>.
\<close>

record TokenHolding =
  mint :: string
  amount :: string
  decimals :: int

record AirdropCriteria =
  protocol :: string
  requiredTokens :: "string list"
  minimumBalance :: int
  minimumTransactions :: int

definition AIRDROP_CRITERIA :: "AirdropCriteria list" where
  "AIRDROP_CRITERIA =
     [\<lparr>protocol = ''JupiterV2'',
       requiredTokens = [''JUPyiwrYJFskUPiHa7hkeR8VUtAAXxEDBtS1nHLApPf''],
       minimumBalance = 0,
       minimumTransactions = 5\<rparr>,
      \<lparr>protocol = ''Orca'',
       requiredTokens = [''orcaEKTdK7LKz57vaAYr9QeNsVEPfiu6QeMU1kektZE''],
       minimumBalance = 0,
       minimumTransactions = 3\<rparr>]"

text \<open>The object literal pushed by \<open>checkAirdropEligibility\<close>:
  \<open>{ eligible, protocol: criteria.protocol, reason }\<close>.\<close>

datatype EligibilityResult =
  EligibilityResult (eligible: bool) (result_protocol: string) (reason: string)

section \<open>Thrown values and settled promises\<close>

text \<open>
  A thrown value is an \<open>Error\<close> carrying its message, or something that is not an
  instance of \<open>Error\<close>. An awaited call is the sum \<open>thrown + 'a\<close>: \<open>Inl\<close> is a
  rejection (or a synchronous throw), \<open>Inr\<close> the value.
\<close>

datatype thrown = Error string | NonError

section \<open>Rendering numbers in template literals\<close>

text \<open>\<open>${n}\<close> for an integer: its decimal digits, with a sign when negative.\<close>

definition digit :: "nat \<Rightarrow> char" where
  "digit d = ''0123456789'' ! d"

fun show_nat :: "nat \<Rightarrow> string" where
  "show_nat n = (if n < 10 then [digit n] else show_nat (n div 10) @ [digit (n mod 10)])"

definition show_int :: "int \<Rightarrow> string" where
  "show_int i = (if i < 0 then CHR ''-'' # show_nat (nat (- i)) else show_nat (nat i))"

section \<open>The collaborators the code calls\<close>

text \<open>
  Nothing of the balances index, the ledger RPC, the key library or the action library
  is in the repository. Each call site reads its outcome from a record of answers: one
  answer per query, fixed for the length of one request.
\<close>

text \<open>The parsed body of the balances response, as far as \<open>data.tokens || []\<close>
  looks at it: \<open>data\<close> is \<open>null\<close> (reading a property of it throws), or it is a
  value whose \<open>tokens\<close> member is missing, \<open>null\<close>, or the array of holdings.\<close>

datatype tokens_field = TokensAbsent | TokensNull | Tokens "TokenHolding list"

datatype json_outcome = JsonRejects thrown | JsonNull | JsonValue tokens_field

datatype fetch_response = FetchResponse (ok: bool) (status: nat) (json: json_outcome)

text \<open>What \<open>getTransaction\<close> resolves to, seen through
  \<open>tx.transaction.message.accountKeys.map(key => key.toString())\<close>.\<close>

datatype TransactionResponse = TransactionResponse (accountKeys: "string list")

type_synonym pubkey = string

record connection =
  getSignaturesForAddress :: "pubkey \<Rightarrow> nat \<Rightarrow> thrown + string list"
  getTransaction :: "string \<Rightarrow> thrown + TransactionResponse option"
  getLatestBlockhash :: "thrown + string"

text \<open>The lamport amount of the transfer is a floating-point product and is left out.\<close>

datatype instruction = Transfer (fromPubkey: pubkey) (toPubkey: pubkey)

record Transaction =
  instructions :: "instruction list"
  recentBlockhash :: "string option"
  feePayer :: "pubkey option"

record post_fields =
  fields_transaction :: Transaction
  fields_message :: string
  fields_type :: string

datatype ActionPostResponse =
  ActionPostResponse (payload_transaction: string) (payload_message: "string option")

record world =
  HELIUS_API_KEY :: "string option"
  NEXT_PUBLIC_RPC_URL :: "string option"
  fetch :: "string \<Rightarrow> thrown + fetch_response"
  PublicKey :: "string \<Rightarrow> thrown + pubkey"
  isOnCurve :: "pubkey \<Rightarrow> bool"
  Connection :: "string \<Rightarrow> thrown + connection"
  createPostResponse :: "post_fields \<Rightarrow> thrown + ActionPostResponse"

section \<open>\<open>getTokenHoldings\<close>\<close>

definition balances_url :: "world \<Rightarrow> string \<Rightarrow> string" where
  "balances_url w address =
     ''https://api.helius.xyz/v0/addresses/'' @ address @ ''/balances?api-key='' @
     (case HELIUS_API_KEY w of None \<Rightarrow> ''undefined'' | Some k \<Rightarrow> k)"

text \<open>The body of the \<open>try\<close> block.\<close>

definition getTokenHoldings_try :: "world \<Rightarrow> string \<Rightarrow> thrown + TokenHolding list" where
  "getTokenHoldings_try w address =
     (case fetch w (balances_url w address) of
        Inl e \<Rightarrow> Inl e
      | Inr response \<Rightarrow>
          if \<not> ok response
          then Inl (Error (''HTTP error! status: '' @ show_nat (status response)))
          else (case json response of
                  JsonRejects e \<Rightarrow> Inl e
                | JsonNull \<Rightarrow> Inl (Error ''Cannot read properties of null'')
                | JsonValue t \<Rightarrow>
                    Inr (case t of Tokens ts \<Rightarrow> ts | TokensAbsent \<Rightarrow> [] | TokensNull \<Rightarrow> [])))"

text \<open>The \<open>catch\<close> block logs and returns \<open>[]\<close>.\<close>

definition getTokenHoldings :: "world \<Rightarrow> string \<Rightarrow> thrown + TokenHolding list" where
  "getTokenHoldings w address =
     (case getTokenHoldings_try w address of
        Inl error \<Rightarrow> Inr []
      | Inr holdings \<Rightarrow> Inr holdings)"

section \<open>\<open>checkDefiInteractions\<close>\<close>

text \<open>A JavaScript \<open>Map\<close> keeps its keys in insertion order: \<open>set\<close> on a present key
  replaces the value in place, on a new key it appends.\<close>

type_synonym interactions_map = "(string \<times> nat) list"

fun map_get :: "interactions_map \<Rightarrow> string \<Rightarrow> nat option" where
  "map_get [] k = None"
| "map_get ((k', v) # m) k = (if k' = k then Some v else map_get m k)"

fun map_set :: "interactions_map \<Rightarrow> string \<Rightarrow> nat \<Rightarrow> interactions_map" where
  "map_set [] k v = [(k, v)]"
| "map_set ((k', v') # m) k v = (if k' = k then (k, v) # m else (k', v') # map_set m k v)"

definition map_values :: "interactions_map \<Rightarrow> nat list" where
  "map_values m = map snd m"

text \<open>Reading a tally as the specification does: an absent key counts as zero.\<close>

definition interaction_count :: "interactions_map \<Rightarrow> string \<Rightarrow> nat" where
  "interaction_count m k = (case map_get m k of None \<Rightarrow> 0 | Some c \<Rightarrow> c)"

text \<open>The inner loop \<open>for (const protocolAddr of protocolAddresses)\<close>.\<close>

fun tally_accounts :: "string list \<Rightarrow> string list \<Rightarrow> interactions_map \<Rightarrow> interactions_map" where
  "tally_accounts accounts [] interactions = interactions"
| "tally_accounts accounts (protocolAddr # rest) interactions =
     tally_accounts accounts rest
       (if List.member accounts protocolAddr
        then (let count = (case map_get interactions protocolAddr of None \<Rightarrow> 0 | Some c \<Rightarrow> c)
              in map_set interactions protocolAddr (count + 1))
        else interactions)"

text \<open>The outer loop \<open>for (const tx of transactions)\<close> with \<open>if (!tx) continue\<close>.\<close>

fun tally_transactions ::
  "TransactionResponse option list \<Rightarrow> string list \<Rightarrow> interactions_map \<Rightarrow> interactions_map" where
  "tally_transactions [] protocolAddresses interactions = interactions"
| "tally_transactions (None # txs) protocolAddresses interactions =
     tally_transactions txs protocolAddresses interactions"
| "tally_transactions (Some tx # txs) protocolAddresses interactions =
     tally_transactions txs protocolAddresses
       (tally_accounts (accountKeys tx) protocolAddresses interactions)"

text \<open>\<open>Promise.all\<close>: rejected as soon as one member is, fulfilled with all the
  values otherwise.\<close>

fun promise_all :: "(thrown + 'a) list \<Rightarrow> thrown + 'a list" where
  "promise_all [] = Inr []"
| "promise_all (Inl e # ps) = Inl e"
| "promise_all (Inr v # ps) = (case promise_all ps of Inl e \<Rightarrow> Inl e | Inr vs \<Rightarrow> Inr (v # vs))"

text \<open>The body of the \<open>try\<close> block, started on the empty map.\<close>

definition checkDefiInteractions_try ::
  "world \<Rightarrow> connection \<Rightarrow> string \<Rightarrow> string list \<Rightarrow> thrown + interactions_map" where
  "checkDefiInteractions_try w conn address protocolAddresses =
     (case PublicKey w address of
        Inl e \<Rightarrow> Inl e
      | Inr key \<Rightarrow>
          (case getSignaturesForAddress conn key 50 of
             Inl e \<Rightarrow> Inl e
           | Inr signatures \<Rightarrow>
               (case promise_all (map (getTransaction conn) signatures) of
                  Inl e \<Rightarrow> Inl e
                | Inr transactions \<Rightarrow>
                    Inr (tally_transactions transactions protocolAddresses []))))"

text \<open>Every throwing call of the \<open>try\<close> block comes before the loop, so the map the
  \<open>catch\<close> path returns is still the empty one.\<close>

definition checkDefiInteractions ::
  "world \<Rightarrow> connection \<Rightarrow> string \<Rightarrow> string list \<Rightarrow> thrown + interactions_map" where
  "checkDefiInteractions w conn address protocolAddresses =
     (case checkDefiInteractions_try w conn address protocolAddresses of
        Inl error \<Rightarrow> Inr []
      | Inr interactions \<Rightarrow> Inr interactions)"

section \<open>\<open>checkAirdropEligibility\<close>\<close>

text \<open>\<open>criteria.requiredTokens.some(token => holdings.some(holding => holding.mint === token))\<close>\<close>

definition hasRequiredTokens :: "TokenHolding list \<Rightarrow> AirdropCriteria \<Rightarrow> bool" where
  "hasRequiredTokens holdings criteria =
     list_ex (\<lambda>token. list_ex (\<lambda>holding. mint holding = token) holdings)
       (requiredTokens criteria)"

text \<open>\<open>Array.from(interactions.values()).reduce((sum, count) => sum + count, 0)\<close>\<close>

definition totalInteractions :: "interactions_map \<Rightarrow> nat" where
  "totalInteractions interactions = foldl (\<lambda>sum count. sum + count) 0 (map_values interactions)"

text \<open>The decision and the reason string of one pass of the loop.\<close>

definition decide :: "AirdropCriteria \<Rightarrow> bool \<Rightarrow> nat \<Rightarrow> EligibilityResult" where
  "decide criteria has found =
     (if has \<and> int found \<ge> minimumTransactions criteria
      then EligibilityResult True (protocol criteria)
             (''Eligible for '' @ protocol criteria @ '' airdrop! Found '' @ show_nat found @
              '' interactions.'')
      else EligibilityResult False (protocol criteria)
             (''Not eligible for '' @ protocol criteria @ ''. '' @
              ''Need '' @ show_int (minimumTransactions criteria) @ '' interactions, found '' @
              show_nat found @ ''.''))"

text \<open>The loop \<open>for (const criteria of AIRDROP_CRITERIA)\<close>, with \<open>results\<close> as the
  accumulator that \<open>push\<close> extends. The table is a parameter here; the source's
  function is the instance at \<open>AIRDROP_CRITERIA\<close>.\<close>

fun eligibility_loop ::
  "world \<Rightarrow> connection \<Rightarrow> string \<Rightarrow> TokenHolding list \<Rightarrow> AirdropCriteria list \<Rightarrow>
   EligibilityResult list \<Rightarrow> thrown + EligibilityResult list" where
  "eligibility_loop w conn userAddress holdings [] results = Inr results"
| "eligibility_loop w conn userAddress holdings (criteria # rest) results =
     (case checkDefiInteractions w conn userAddress (requiredTokens criteria) of
        Inl e \<Rightarrow> Inl e
      | Inr interactions \<Rightarrow>
          eligibility_loop w conn userAddress holdings rest
            (results @ [decide criteria (hasRequiredTokens holdings criteria)
                          (totalInteractions interactions)]))"

definition checkAirdropEligibility_table ::
  "AirdropCriteria list \<Rightarrow> world \<Rightarrow> connection \<Rightarrow> string \<Rightarrow> thrown + EligibilityResult list" where
  "checkAirdropEligibility_table table w conn userAddress =
     (case getTokenHoldings w userAddress of
        Inl e \<Rightarrow> Inl e
      | Inr holdings \<Rightarrow> eligibility_loop w conn userAddress holdings table [])"

definition checkAirdropEligibility ::
  "world \<Rightarrow> connection \<Rightarrow> string \<Rightarrow> thrown + EligibilityResult list" where
  "checkAirdropEligibility = checkAirdropEligibility_table AIRDROP_CRITERIA"

section \<open>The POST handlers\<close>

text \<open>A request, as far as the handlers read it: the \<open>action\<close> query parameter and
  the outcome of \<open>request.json()\<close>, typed \<open>ActionPostRequest\<close>, of which only
  \<open>account\<close> is used.\<close>

record Request =
  action :: "string option"
  request_json :: "thrown + string"

datatype header = ACTIONS_CORS_HEADERS | Header string string

datatype body = ErrorBody string | MessageBody string | PayloadBody ActionPostResponse

record Response =
  http_status :: nat
  http_body :: body
  http_headers :: "header list"

fun join :: "string \<Rightarrow> string list \<Rightarrow> string" where
  "join sep [] = []"
| "join sep [x] = x"
| "join sep (x # y # xs) = x @ sep @ join sep (y # xs)"

definition newline :: string where
  "newline = [CHR 0x0A]"

definition rpc_endpoint :: "world \<Rightarrow> string" where
  "rpc_endpoint w =
     (case NEXT_PUBLIC_RPC_URL w of
        None \<Rightarrow> ''https://api.mainnet-beta.solana.com''
      | Some u \<Rightarrow> if u = [] then ''https://api.mainnet-beta.solana.com'' else u)"

definition no_eligible_message :: "EligibilityResult list \<Rightarrow> string" where
  "no_eligible_message eligibilityResults =
     ''No eligible airdrops found.'' @ newline @ join newline (map reason eligibilityResults)"

definition found_message :: "EligibilityResult list \<Rightarrow> string" where
  "found_message eligibilityResults =
     ''Found '' @ show_nat (length (filter eligible eligibilityResults)) @
     '' eligible airdrops:'' @ newline @ join newline (map reason eligibilityResults)"

subsection \<open>First revision (lines 180 to 257)\<close>

text \<open>The body of the \<open>try\<close> block, after \<open>request.json()\<close> has been awaited
  outside of it.\<close>

definition POST_try :: "world \<Rightarrow> string \<Rightarrow> thrown + Response" where
  "POST_try w userAddress =
     (case PublicKey w userAddress of
        Inl e \<Rightarrow> Inl e
      | Inr key \<Rightarrow>
          if \<not> isOnCurve w key then Inl (Error ''Invalid Solana address'')
          else (case Connection w (rpc_endpoint w) of
                  Inl e \<Rightarrow> Inl e
                | Inr connection \<Rightarrow>
                    (case checkAirdropEligibility w connection userAddress of
                       Inl e \<Rightarrow> Inl e
                     | Inr eligibilityResults \<Rightarrow>
                         if length (filter eligible eligibilityResults) = 0
                         then Inr \<lparr>http_status = 200,
                                   http_body = MessageBody (no_eligible_message eligibilityResults),
                                   http_headers = [ACTIONS_CORS_HEADERS]\<rparr>
                         else (case createPostResponse w
                                      \<lparr>fields_transaction =
                                         \<lparr>instructions = [], recentBlockhash = None,
                                          feePayer = None\<rparr>,
                                       fields_message = found_message eligibilityResults,
                                       fields_type = ''transaction''\<rparr> of
                                 Inl e \<Rightarrow> Inl e
                               | Inr payload \<Rightarrow>
                                   Inr \<lparr>http_status = 200, http_body = PayloadBody payload,
                                        http_headers = [ACTIONS_CORS_HEADERS]\<rparr>))))"

definition POST_catch :: "thrown \<Rightarrow> Response" where
  "POST_catch error =
     (case error of
        Error message \<Rightarrow>
          \<lparr>http_status = 500,
           http_body = ErrorBody (''Failed to process airdrop check: '' @ message),
           http_headers = [ACTIONS_CORS_HEADERS]\<rparr>
      | NonError \<Rightarrow>
          \<lparr>http_status = 500,
           http_body = ErrorBody ''An unknown error occurred while processing the airdrop check.'',
           http_headers = [ACTIONS_CORS_HEADERS]\<rparr>)"

definition POST :: "world \<Rightarrow> Request \<Rightarrow> thrown + Response" where
  "POST w request =
     (if action request \<noteq> Some ''check''
      then Inr \<lparr>http_status = 400, http_body = ErrorBody ''Invalid action'',
                http_headers = [ACTIONS_CORS_HEADERS]\<rparr>
      else (case request_json request of
              Inl e \<Rightarrow> Inl e
            | Inr userAddress \<Rightarrow>
                (case POST_try w userAddress of
                   Inl error \<Rightarrow> Inr (POST_catch error)
                 | Inr response \<Rightarrow> Inr response)))"

subsection \<open>Second revision (lines 475 to 556)\<close>

definition ACTION_VERSION :: string where
  "ACTION_VERSION = ''1''"

definition BLOCKCHAIN_IDS :: "string list" where
  "BLOCKCHAIN_IDS = [''solana'']"

definition action_headers :: "header list" where
  "action_headers =
     [ACTIONS_CORS_HEADERS,
      Header ''Content-Type'' ''application/json'',
      Header ''X-Action-Version'' ACTION_VERSION,
      Header ''X-Blockchain-Ids'' (join '','' BLOCKCHAIN_IDS)]"

definition createDummyTransaction :: "world \<Rightarrow> connection \<Rightarrow> string \<Rightarrow> thrown + Transaction" where
  "createDummyTransaction w connection userAddress =
     (case PublicKey w userAddress of
        Inl e \<Rightarrow> Inl e
      | Inr from_key \<Rightarrow>
          (case PublicKey w userAddress of
             Inl e \<Rightarrow> Inl e
           | Inr to_key \<Rightarrow>
               (case getLatestBlockhash connection of
                  Inl e \<Rightarrow> Inl e
                | Inr blockhash \<Rightarrow>
                    (case PublicKey w userAddress of
                       Inl e \<Rightarrow> Inl e
                     | Inr payer \<Rightarrow>
                         Inr \<lparr>instructions = [Transfer from_key to_key],
                              recentBlockhash = Some blockhash,
                              feePayer = Some payer\<rparr>))))"

text \<open>The body of the \<open>try\<close> block; \<open>request.json()\<close> is awaited inside it.\<close>

definition POST2_try :: "world \<Rightarrow> Request \<Rightarrow> thrown + Response" where
  "POST2_try w request =
     (case request_json request of
        Inl e \<Rightarrow> Inl e
      | Inr userAddress \<Rightarrow>
     (case PublicKey w userAddress of
        Inl e \<Rightarrow> Inl e
      | Inr key \<Rightarrow>
          if \<not> isOnCurve w key then Inl (Error ''Invalid Solana address'')
          else (case Connection w (rpc_endpoint w) of
                  Inl e \<Rightarrow> Inl e
                | Inr connection \<Rightarrow>
                    (case checkAirdropEligibility w connection userAddress of
                       Inl e \<Rightarrow> Inl e
                     | Inr eligibilityResults \<Rightarrow>
                         (let message =
                                (if length (filter eligible eligibilityResults) = 0
                                 then no_eligible_message eligibilityResults
                                 else found_message eligibilityResults)
                          in (case createDummyTransaction w connection userAddress of
                                Inl e \<Rightarrow> Inl e
                              | Inr transaction \<Rightarrow>
                                  (case createPostResponse w
                                          \<lparr>fields_transaction = transaction,
                                           fields_message = message,
                                           fields_type = ''transaction''\<rparr> of
                                     Inl e \<Rightarrow> Inl e
                                   | Inr payload \<Rightarrow>
                                       Inr \<lparr>http_status = 200, http_body = PayloadBody payload,
                                            http_headers = action_headers\<rparr>)))))))"

definition POST2_catch :: "thrown \<Rightarrow> Response" where
  "POST2_catch error =
     (let errorMessage = (case error of Error message \<Rightarrow> message
                                      | NonError \<Rightarrow> ''An unknown error occurred'')
      in \<lparr>http_status = 500,
          http_body = ErrorBody (''Failed to process airdrop check: '' @ errorMessage),
          http_headers = action_headers\<rparr>)"

definition POST2 :: "world \<Rightarrow> Request \<Rightarrow> thrown + Response" where
  "POST2 w request =
     (if action request \<noteq> Some ''check''
      then Inr \<lparr>http_status = 400, http_body = ErrorBody ''Invalid action'',
                http_headers = action_headers\<rparr>
      else (case POST2_try w request of
              Inl error \<Rightarrow> Inr (POST2_catch error)
            | Inr response \<Rightarrow> Inr response))"

section \<open>Auxiliary definitions for the statements\<close>

text \<open>A signature whose lookup resolves to a transaction that references the target;
  a signature whose lookup rejects.\<close>

definition hit :: "connection \<Rightarrow> string \<Rightarrow> string \<Rightarrow> bool" where
  "hit conn target signature =
     (case getTransaction conn signature of
        Inl e \<Rightarrow> False
      | Inr None \<Rightarrow> False
      | Inr (Some tx) \<Rightarrow> target \<in> set (accountKeys tx))"

definition rejects :: "connection \<Rightarrow> string \<Rightarrow> bool" where
  "rejects conn signature = isl (getTransaction conn signature)"

text \<open>The same test on an already resolved member of the batch.\<close>

definition tx_hit :: "string \<Rightarrow> TransactionResponse option \<Rightarrow> bool" where
  "tx_hit target tx = (case tx of None \<Rightarrow> False | Some r \<Rightarrow> target \<in> set (accountKeys r))"

text \<open>The values the two fetchers and one pass of the evaluator's loop come to.\<close>

definition holdings_result :: "world \<Rightarrow> string \<Rightarrow> TokenHolding list" where
  "holdings_result w address =
     (case getTokenHoldings_try w address of Inl error \<Rightarrow> [] | Inr holdings \<Rightarrow> holdings)"

definition interactions_result ::
  "world \<Rightarrow> connection \<Rightarrow> string \<Rightarrow> string list \<Rightarrow> interactions_map" where
  "interactions_result w conn address ps =
     (case checkDefiInteractions_try w conn address ps of
        Inl error \<Rightarrow> [] | Inr interactions \<Rightarrow> interactions)"

definition verdict ::
  "world \<Rightarrow> connection \<Rightarrow> string \<Rightarrow> AirdropCriteria \<Rightarrow> EligibilityResult" where
  "verdict w conn address criteria =
     decide criteria (hasRequiredTokens (holdings_result w address) criteria)
       (totalInteractions (interactions_result w conn address (requiredTokens criteria)))"

text \<open>The balances call fails: the fetch rejects, the status is not a success, or the
  body cannot be read.\<close>

definition holdings_upstream_fails :: "world \<Rightarrow> string \<Rightarrow> bool" where
  "holdings_upstream_fails w address =
     (case fetch w (balances_url w address) of
        Inl e \<Rightarrow> True
      | Inr response \<Rightarrow>
          \<not> ok response \<or>
          (case json response of JsonRejects e \<Rightarrow> True | JsonNull \<Rightarrow> True | JsonValue t \<Rightarrow> False))"

text \<open>The ledger calls fail: the key cannot be built, the signature lookup rejects, or
  the lookup of one of the signatures rejects.\<close>

definition interactions_upstream_fails :: "world \<Rightarrow> connection \<Rightarrow> string \<Rightarrow> bool" where
  "interactions_upstream_fails w conn address =
     (case PublicKey w address of
        Inl e \<Rightarrow> True
      | Inr key \<Rightarrow>
          (case getSignaturesForAddress conn key 50 of
             Inl e \<Rightarrow> True
           | Inr signatures \<Rightarrow> list_ex (rejects conn) signatures))"

text \<open>The ledger answers the request for 50 signatures with at most 50. The code passes
  \<open>{ limit: 50 }\<close> and takes whatever comes back.\<close>

definition window_respected :: "world \<Rightarrow> connection \<Rightarrow> string \<Rightarrow> bool" where
  "window_respected w conn address =
     (case PublicKey w address of
        Inl e \<Rightarrow> True
      | Inr key \<Rightarrow>
          (case getSignaturesForAddress conn key 50 of
             Inl e \<Rightarrow> True
           | Inr signatures \<Rightarrow> length signatures \<le> 50))"

section \<open>Sample worlds\<close>

text \<open>Concrete answers of the collaborators, on which the statements below are run.\<close>

definition JUP :: string where
  "JUP = ''JUPyiwrYJFskUPiHa7hkeR8VUtAAXxEDBtS1nHLApPf''"

text \<open>A stand-in for the action library: it refuses a transaction without instructions
  and otherwise returns a payload that carries the message it was given.\<close>

definition sample_createPostResponse :: "post_fields \<Rightarrow> thrown + ActionPostResponse" where
  "sample_createPostResponse args =
     (if instructions (fields_transaction args) = []
      then Inl (Error ''at least 1 instruction is required'')
      else Inr (ActionPostResponse ''AQAB'' (Some (fields_message args))))"

definition active_connection :: connection where
  "active_connection =
     \<lparr>getSignaturesForAddress =
        (\<lambda>key limit. Inr (take limit [''s1'', ''s2'', ''s3'', ''s4'', ''s5'', ''s6''])),
      getTransaction =
        (\<lambda>signature. if signature = ''s6'' then Inr None
                      else Inr (Some (TransactionResponse [''wallet'', JUP]))),
      getLatestBlockhash = Inr ''blockhash''\<rparr>"

definition flaky_connection :: connection where
  "flaky_connection =
     active_connection\<lparr>getTransaction :=
        (\<lambda>signature. if signature = ''s6'' then Inl (Error ''fetch failed'')
                      else Inr (Some (TransactionResponse [''wallet'', JUP])))\<rparr>"

definition active_world :: world where
  "active_world =
     \<lparr>HELIUS_API_KEY = Some ''key'',
      NEXT_PUBLIC_RPC_URL = None,
      fetch = (\<lambda>url. Inr (FetchResponse True 200
                 (JsonValue (Tokens [\<lparr>mint = JUP, amount = ''1000'', decimals = 6\<rparr>])))),
      PublicKey = (\<lambda>s. Inr s),
      isOnCurve = (\<lambda>key. True),
      Connection = (\<lambda>url. Inr active_connection),
      createPostResponse = sample_createPostResponse\<rparr>"

text \<open>A ledger with sixty signatures on record, every one of a transaction that
  references the token; it returns as many as it is asked for.\<close>

definition busy_connection :: connection where
  "busy_connection =
     \<lparr>getSignaturesForAddress = (\<lambda>key limit. Inr (take limit (map show_nat [1..<61]))),
      getTransaction = (\<lambda>signature. Inr (Some (TransactionResponse [''wallet'', JUP]))),
      getLatestBlockhash = Inr ''blockhash''\<rparr>"

definition quiet_connection :: connection where
  "quiet_connection =
     \<lparr>getSignaturesForAddress = (\<lambda>key limit. Inr []),
      getTransaction = (\<lambda>signature. Inr None),
      getLatestBlockhash = Inr ''blockhash''\<rparr>"

definition quiet_world :: world where
  "quiet_world =
     active_world\<lparr>fetch := (\<lambda>url. Inr (FetchResponse True 200 (JsonValue (Tokens [])))),
                  Connection := (\<lambda>url. Inr quiet_connection)\<rparr>"

definition down_connection :: connection where
  "down_connection =
     \<lparr>getSignaturesForAddress = (\<lambda>key limit. Inl (Error ''429 Too Many Requests'')),
      getTransaction = (\<lambda>signature. Inl (Error ''429 Too Many Requests'')),
      getLatestBlockhash = Inl (Error ''429 Too Many Requests'')\<rparr>"

definition down_world :: world where
  "down_world =
     active_world\<lparr>fetch := (\<lambda>url. Inl (Error ''fetch failed'')),
                  Connection := (\<lambda>url. Inr down_connection)\<rparr>"

definition untagged_world :: world where
  "untagged_world =
     active_world\<lparr>fetch := (\<lambda>url. Inr (FetchResponse True 200 (JsonValue TokensAbsent)))\<rparr>"

definition offcurve_world :: world where
  "offcurve_world = active_world\<lparr>isOnCurve := (\<lambda>key. False)\<rparr>"

definition check_request :: Request where
  "check_request = \<lparr>action = Some ''check'', request_json = Inr ''wallet''\<rparr>"

section \<open>Lemmas about the pipeline\<close>

lemma map_get_map_set:
  "map_get (map_set m k v) k' = (if k' = k then Some v else map_get m k')"
  by (induction m) auto

lemma interaction_count_map_set:
  "interaction_count (map_set m k v) k' = (if k' = k then v else interaction_count m k')"
  by (simp add: interaction_count_def map_get_map_set)

lemma interaction_count_tally_accounts:
  "interaction_count (tally_accounts accounts ps m) t =
     interaction_count m t + (if t \<in> set accounts then count_list ps t else 0)"
proof (induction ps arbitrary: m)
  case Nil
  show ?case by simp
next
  case (Cons p ps)
  show ?case
    by (simp add: Cons.IH interaction_count_map_set Let_def)
       (simp add: interaction_count_def)
qed

lemma interaction_count_tally_transactions:
  "interaction_count (tally_transactions txs ps m) t =
     interaction_count m t + count_list ps t * length (filter (tx_hit t) txs)"
proof (induction txs ps m rule: tally_transactions.induct)
  case (1 ps m)
  show ?case by simp
next
  case (2 txs ps m)
  then show ?case by (simp add: tx_hit_def)
next
  case (3 tx txs ps m)
  then show ?case
    by (simp add: tx_hit_def interaction_count_tally_accounts algebra_simps)
qed

lemma promise_all_Inr:
  "promise_all ps = Inr vs \<Longrightarrow> ps = map Inr vs"
  by (induction ps arbitrary: vs rule: promise_all.induct) (auto split: sum.splits)

lemma promise_all_Inl:
  "promise_all ps = Inl e \<Longrightarrow> list_ex isl ps"
  by (induction ps rule: promise_all.induct) (auto split: sum.splits)

lemma promise_all_rejects:
  "list_ex isl ps \<Longrightarrow> \<exists>e. promise_all ps = Inl e"
  by (induction ps rule: promise_all.induct) (auto split: sum.splits)

lemma foldl_plus_sum_list:
  "foldl (\<lambda>sum count. sum + count) a xs = a + sum_list (xs :: nat list)"
  by (induction xs arbitrary: a) auto

lemma totalInteractions_sum_list:
  "totalInteractions m = sum_list (map_values m)"
  by (simp add: totalInteractions_def foldl_plus_sum_list)

lemma getTokenHoldings_Inr: "\<exists>holdings. getTokenHoldings w address = Inr holdings"
  by (simp add: getTokenHoldings_def split: sum.splits)

lemma checkDefiInteractions_Inr:
  "\<exists>interactions. checkDefiInteractions w conn address ps = Inr interactions"
  by (simp add: checkDefiInteractions_def split: sum.splits)

lemma getTokenHoldings_eq: "getTokenHoldings w address = Inr (holdings_result w address)"
  by (simp add: getTokenHoldings_def holdings_result_def split: sum.splits)

lemma checkDefiInteractions_eq:
  "checkDefiInteractions w conn address ps = Inr (interactions_result w conn address ps)"
  by (simp add: checkDefiInteractions_def interactions_result_def split: sum.splits)

lemma eligibility_loop_eq:
  "eligibility_loop w conn address holdings table results =
     Inr (results @
          map (\<lambda>c. decide c (hasRequiredTokens holdings c)
                     (totalInteractions (interactions_result w conn address (requiredTokens c))))
            table)"
  by (induction table arbitrary: results) (simp_all add: checkDefiInteractions_eq)

lemma checkAirdropEligibility_table_eq:
  "checkAirdropEligibility_table table w conn address = Inr (map (verdict w conn address) table)"
  by (simp add: checkAirdropEligibility_table_def getTokenHoldings_eq eligibility_loop_eq
        verdict_def)

lemma eligible_decide:
  "eligible (decide c has found) \<longleftrightarrow> has \<and> minimumTransactions c \<le> int found"
  by (simp add: decide_def)

lemma result_protocol_decide: "result_protocol (decide c has found) = protocol c"
  by (simp add: decide_def)

lemma hasRequiredTokens_iff:
  "hasRequiredTokens holdings c \<longleftrightarrow> (\<exists>h\<in>set holdings. mint h \<in> set (requiredTokens c))"
  by (auto simp: hasRequiredTokens_def list_ex_iff)

lemma verdict_minimumBalance:
  "verdict w conn address (c\<lparr>minimumBalance := b\<rparr>) = verdict w conn address c"
  by (simp add: verdict_def decide_def hasRequiredTokens_def)

lemma table_watch_lists_distinct:
  "list_all (\<lambda>c. distinct (requiredTokens c)) AIRDROP_CRITERIA"
  by (simp add: AIRDROP_CRITERIA_def)

lemma count_list_distinct: "distinct xs \<Longrightarrow> count_list xs x \<le> 1"
  by (induction xs) auto

lemma promise_all_length: "promise_all ps = Inr vs \<Longrightarrow> length vs = length ps"
  by (drule promise_all_Inr) simp

lemma promise_all_fulfilled:
  "\<not> list_ex isl ps \<Longrightarrow> promise_all ps = Inr (map projr ps)"
  by (induction ps rule: promise_all.induct) auto

lemma interaction_count_empty: "interaction_count [] t = 0"
  by (simp add: interaction_count_def)

lemma interactions_result_bound:
  "interaction_count (interactions_result w conn address ps) t \<le>
     count_list ps t *
     (case PublicKey w address of
        Inl e \<Rightarrow> 0
      | Inr key \<Rightarrow> (case getSignaturesForAddress conn key 50 of
                      Inl e \<Rightarrow> 0 | Inr signatures \<Rightarrow> length signatures))"
proof (cases "PublicKey w address")
  case (Inl e)
  then show ?thesis
    by (simp add: interactions_result_def checkDefiInteractions_try_def interaction_count_empty)
next
  case key: (Inr key)
  show ?thesis
  proof (cases "getSignaturesForAddress conn key 50")
    case (Inl e)
    with key show ?thesis
      by (simp add: interactions_result_def checkDefiInteractions_try_def interaction_count_empty)
  next
    case sigs: (Inr signatures)
    show ?thesis
    proof (cases "promise_all (map (getTransaction conn) signatures)")
      case (Inl e)
      with key sigs show ?thesis
        by (simp add: interactions_result_def checkDefiInteractions_try_def
              interaction_count_empty)
    next
      case (Inr transactions)
      then have len: "length transactions = length signatures"
        by (simp add: promise_all_length)
      have "length (filter (tx_hit t) transactions) \<le> length signatures"
        using len length_filter_le [of "tx_hit t" transactions] by simp
      then have "count_list ps t * length (filter (tx_hit t) transactions) \<le>
                 count_list ps t * length signatures"
        by simp
      with key sigs Inr show ?thesis
        by (simp add: interactions_result_def checkDefiInteractions_try_def
              interaction_count_tally_transactions interaction_count_empty)
    qed
  qed
qed

lemma POST2_try_body:
  "POST2_try w request = Inr r \<Longrightarrow> \<exists>payload. http_body r = PayloadBody payload"
  by (auto simp: POST2_try_def Let_def split: sum.splits if_splits)

lemma POST2_catch_body: "\<exists>text. http_body (POST2_catch e) = ErrorBody text"
  by (simp add: POST2_catch_def Let_def)

lemma POST2_never_message: "POST2 w request = Inr r \<Longrightarrow> http_body r \<noteq> MessageBody m"
proof (cases "action request = Some ''check''")
  case False
  assume "POST2 w request = Inr r"
  with False show ?thesis by (auto simp: POST2_def)
next
  case True
  assume run: "POST2 w request = Inr r"
  show ?thesis
  proof (cases "POST2_try w request")
    case (Inl e)
    with True run have "r = POST2_catch e" by (simp add: POST2_def)
    then show ?thesis using POST2_catch_body [of e] by auto
  next
    case (Inr r')
    with True run have "r = r'" by (simp add: POST2_def)
    with Inr show ?thesis using POST2_try_body [of w request r] by auto
  qed
qed

lemma POST2_success:
  assumes "action request = Some ''check''"
    and "request_json request = Inr userAddress"
    and "PublicKey w userAddress = Inr key"
    and "isOnCurve w key"
    and "Connection w (rpc_endpoint w) = Inr connection"
    and "checkAirdropEligibility w connection userAddress = Inr results"
    and "createDummyTransaction w connection userAddress = Inr transaction"
    and "createPostResponse w
           \<lparr>fields_transaction = transaction,
            fields_message =
              (if filter eligible results = [] then no_eligible_message results
               else found_message results),
            fields_type = ''transaction''\<rparr> = Inr payload"
  shows "POST2 w request =
           Inr \<lparr>http_status = 200, http_body = PayloadBody payload,
                http_headers = action_headers\<rparr>"
  using assms by (simp add: POST2_def POST2_try_def Let_def)

lemma quiet_results:
  "checkAirdropEligibility quiet_world quiet_connection ''wallet'' =
     Inr [EligibilityResult False ''JupiterV2''
            ''Not eligible for JupiterV2. Need 5 interactions, found 0.'',
          EligibilityResult False ''Orca''
            ''Not eligible for Orca. Need 3 interactions, found 0.'']"
  by (simp add: checkAirdropEligibility_def checkAirdropEligibility_table_def
        getTokenHoldings_def getTokenHoldings_try_def checkDefiInteractions_def
        checkDefiInteractions_try_def quiet_world_def active_world_def quiet_connection_def
        AIRDROP_CRITERIA_def decide_def hasRequiredTokens_def totalInteractions_def
        map_values_def show_int_def digit_def)

lemma active_results:
  "checkAirdropEligibility active_world active_connection ''wallet'' =
     Inr [EligibilityResult True ''JupiterV2''
            ''Eligible for JupiterV2 airdrop! Found 5 interactions.'',
          EligibilityResult False ''Orca''
            ''Not eligible for Orca. Need 3 interactions, found 0.'']"
  by code_simp

text \<open>The first revision hands \<open>createPostResponse\<close> a transaction without
  instructions. On the stand-in library, which refuses one, the request of a wallet with
  an eligible criterion is answered 500.\<close>

lemma first_revision_eligible_on_sample:
  "POST active_world check_request =
     Inr \<lparr>http_status = 500,
          http_body = ErrorBody
            (''Failed to process airdrop check: '' @ ''at least 1 instruction is required''),
          http_headers = [ACTIONS_CORS_HEADERS]\<rparr>"
  by code_simp

section \<open>The claims\<close>

text \<open>
  C1. For every criterion of the static table, the evaluator marks it eligible if and only
  if the holdings contain a holding whose mint is one of the criterion's required tokens,
  and the counts that \<open>checkDefiInteractions\<close> returns for the criterion's required
  tokens sum to at least the criterion's \<open>minimumTransactions\<close>. The three calls
  return a value for every input.
\<close>

theorem evaluator_decision_rule:
  assumes "i < length AIRDROP_CRITERIA"
  shows "\<exists>holdings interactions results.
           getTokenHoldings w address = Inr holdings \<and>
           checkDefiInteractions w conn address (requiredTokens (AIRDROP_CRITERIA ! i)) =
             Inr interactions \<and>
           checkAirdropEligibility w conn address = Inr results \<and>
           i < length results \<and>
           result_protocol (results ! i) = protocol (AIRDROP_CRITERIA ! i) \<and>
           (eligible (results ! i) \<longleftrightarrow>
              (\<exists>h\<in>set holdings. mint h \<in> set (requiredTokens (AIRDROP_CRITERIA ! i))) \<and>
              minimumTransactions (AIRDROP_CRITERIA ! i) \<le> int (sum_list (map_values interactions)))"
proof -
  let ?c = "AIRDROP_CRITERIA ! i"
  let ?rs = "map (verdict w conn address) AIRDROP_CRITERIA"
  have run: "checkAirdropEligibility w conn address = Inr ?rs"
    by (simp add: checkAirdropEligibility_def checkAirdropEligibility_table_eq)
  have at: "?rs ! i = verdict w conn address ?c"
    using assms by simp
  have rule: "eligible (verdict w conn address ?c) \<longleftrightarrow>
      (\<exists>h\<in>set (holdings_result w address). mint h \<in> set (requiredTokens ?c)) \<and>
      minimumTransactions ?c \<le>
        int (sum_list (map_values (interactions_result w conn address (requiredTokens ?c))))"
    by (simp add: verdict_def eligible_decide hasRequiredTokens_iff totalInteractions_sum_list)
  have name: "result_protocol (verdict w conn address ?c) = protocol ?c"
    by (simp add: verdict_def result_protocol_decide)
  show ?thesis
    using assms run at rule name getTokenHoldings_eq [of w address]
      checkDefiInteractions_eq [of w conn address "requiredTokens ?c"]
    by (intro exI [of _ "holdings_result w address"]
          exI [of _ "interactions_result w conn address (requiredTokens ?c)"]
          exI [of _ ?rs]) simp
qed

theorem evaluator_decision_rule_witness:
  "0 < length AIRDROP_CRITERIA \<and>
   (\<exists>results. checkAirdropEligibility active_world active_connection ''wallet'' = Inr results \<and>
              eligible (results ! 0))"
proof -
  have i: "0 < length AIRDROP_CRITERIA"
    by (simp add: AIRDROP_CRITERIA_def)
  from evaluator_decision_rule [OF i, where w = active_world and address = "''wallet''"
      and conn = active_connection]
  obtain holdings interactions results where
    h: "getTokenHoldings active_world ''wallet'' = Inr holdings" and
    m: "checkDefiInteractions active_world active_connection ''wallet''
          (requiredTokens (AIRDROP_CRITERIA ! 0)) = Inr interactions" and
    r: "checkAirdropEligibility active_world active_connection ''wallet'' = Inr results" and
    e: "eligible (results ! 0) \<longleftrightarrow>
          (\<exists>h\<in>set holdings. mint h \<in> set (requiredTokens (AIRDROP_CRITERIA ! 0))) \<and>
          minimumTransactions (AIRDROP_CRITERIA ! 0) \<le> int (sum_list (map_values interactions))"
    by blast
  have hs: "holdings = [\<lparr>mint = JUP, amount = ''1000'', decimals = 6\<rparr>]"
    using h by (simp add: getTokenHoldings_def getTokenHoldings_try_def active_world_def)
  have "checkDefiInteractions active_world active_connection ''wallet''
          (requiredTokens (AIRDROP_CRITERIA ! 0)) = Inr [(JUP, 5)]"
    by (simp add: checkDefiInteractions_def checkDefiInteractions_try_def AIRDROP_CRITERIA_def
          active_world_def active_connection_def JUP_def)
  with m have ms: "interactions = [(JUP, 5)]"
    by simp
  have "eligible (results ! 0)"
    using e by (simp add: hs ms AIRDROP_CRITERIA_def JUP_def map_values_def)
  with i r show ?thesis by simp
qed

text \<open>
  C2. For every wallet address and every answer of the collaborators, the evaluator returns
  a list with exactly one result per criterion of the static table, in the table's order.
\<close>

theorem evaluator_one_result_per_criterion:
  "\<exists>results. checkAirdropEligibility w conn address = Inr results \<and>
             length results = length AIRDROP_CRITERIA \<and>
             map result_protocol results = map protocol AIRDROP_CRITERIA"
proof -
  have "map result_protocol (map (verdict w conn address) AIRDROP_CRITERIA) =
        map protocol AIRDROP_CRITERIA"
    by (simp add: verdict_def result_protocol_decide)
  then show ?thesis
    by (simp add: checkAirdropEligibility_def checkAirdropEligibility_table_eq)
qed

text \<open>
  C9. Changing only the \<open>minimumBalance\<close> of one criterion of a table leaves the
  evaluator's whole output (every flag, protocol and reason) as it was.
\<close>

theorem minimumBalance_not_consulted:
  "checkAirdropEligibility_table (table[i := (table ! i)\<lparr>minimumBalance := b\<rparr>]) w conn address =
   checkAirdropEligibility_table table w conn address"
proof -
  have "map (verdict w conn address) (table[i := (table ! i)\<lparr>minimumBalance := b\<rparr>]) =
        map (verdict w conn address) table"
  proof (cases "i < length table")
    case True
    then have "(map (verdict w conn address) table) ! i = verdict w conn address (table ! i)"
      by simp
    then show ?thesis
      by (simp add: map_update verdict_minimumBalance) (metis list_update_id)
  next
    case False
    then show ?thesis by (simp add: list_update_beyond)
  qed
  then show ?thesis
    by (simp add: checkAirdropEligibility_table_eq)
qed

text \<open>
  C3. \<open>getTokenHoldings\<close> and \<open>checkDefiInteractions\<close> never throw: both return
  a value for every answer of the collaborators. When the balances call fails (the fetch
  rejects, the status is not a success, the body does not parse) the holdings are empty;
  when the ledger calls fail (the key cannot be built, the signature lookup rejects, a
  transaction lookup rejects) the mapping is empty, so every target counts as zero.
\<close>

theorem fetchers_never_throw:
  "(\<exists>holdings. getTokenHoldings w address = Inr holdings) \<and>
   (\<exists>interactions. checkDefiInteractions w conn address ps = Inr interactions) \<and>
   (holdings_upstream_fails w address \<longrightarrow> getTokenHoldings w address = Inr []) \<and>
   (interactions_upstream_fails w conn address \<longrightarrow>
      checkDefiInteractions w conn address ps = Inr [] \<and> interaction_count [] target = 0)"
proof (intro conjI impI)
  show "\<exists>holdings. getTokenHoldings w address = Inr holdings"
    by (rule getTokenHoldings_Inr)
  show "\<exists>interactions. checkDefiInteractions w conn address ps = Inr interactions"
    by (rule checkDefiInteractions_Inr)
  show "getTokenHoldings w address = Inr []" if "holdings_upstream_fails w address"
    using that
    by (auto simp: holdings_upstream_fails_def getTokenHoldings_def getTokenHoldings_try_def
          split: sum.splits json_outcome.splits)
  show "checkDefiInteractions w conn address ps = Inr []"
    if fails: "interactions_upstream_fails w conn address"
  proof (cases "checkDefiInteractions_try w conn address ps")
    case (Inl e)
    then show ?thesis by (simp add: checkDefiInteractions_def)
  next
    case (Inr m)
    then obtain key signatures transactions
      where key: "PublicKey w address = Inr key"
        and sigs: "getSignaturesForAddress conn key 50 = Inr signatures"
        and all: "promise_all (map (getTransaction conn) signatures) = Inr transactions"
      by (auto simp: checkDefiInteractions_try_def split: sum.splits)
    from fails key sigs have "list_ex (rejects conn) signatures"
      by (simp add: interactions_upstream_fails_def)
    then have "list_ex isl (map (getTransaction conn) signatures)"
      by (simp add: list_ex_iff rejects_def)
    then obtain e where "promise_all (map (getTransaction conn) signatures) = Inl e"
      using promise_all_rejects by blast
    with all show ?thesis by simp
  qed
  show "interaction_count [] target = 0"
    by (rule interaction_count_empty)
qed

theorem fetchers_never_throw_witness:
  "holdings_upstream_fails down_world ''wallet'' \<and>
   interactions_upstream_fails down_world down_connection ''wallet'' \<and>
   getTokenHoldings down_world ''wallet'' = Inr [] \<and>
   checkDefiInteractions down_world down_connection ''wallet'' [JUP] = Inr []"
proof -
  have a: "holdings_upstream_fails down_world ''wallet''"
    by (simp add: holdings_upstream_fails_def down_world_def active_world_def)
  have b: "interactions_upstream_fails down_world down_connection ''wallet''"
    by (simp add: interactions_upstream_fails_def down_world_def active_world_def
          down_connection_def)
  show ?thesis
    using a b fetchers_never_throw [of down_world "''wallet''" down_connection "[JUP]"]
    by simp
qed

text \<open>
  C5, as amended. Within one call of \<open>checkDefiInteractions\<close>, a transaction lookup that
  resolves to \<open>null\<close> is skipped on its own: when no lookup of the batch rejects, the
  count of a target is the number of signatures whose lookup resolved to a transaction
  referencing the target (times the number of times the target is listed). When some lookup
  of the batch rejects, \<open>Promise.all\<close> rejects and the call returns the empty mapping.
\<close>

theorem null_lookups_skipped_rejections_abort:
  assumes "PublicKey w address = Inr key"
    and "getSignaturesForAddress conn key 50 = Inr signatures"
  shows "(\<not> list_ex (rejects conn) signatures \<longrightarrow>
            (\<exists>interactions.
               checkDefiInteractions w conn address ps = Inr interactions \<and>
               interaction_count interactions target =
                 count_list ps target * length (filter (hit conn target) signatures))) \<and>
         (list_ex (rejects conn) signatures \<longrightarrow>
            checkDefiInteractions w conn address ps = Inr [])"
proof (intro conjI impI)
  assume none: "\<not> list_ex (rejects conn) signatures"
  let ?txs = "map projr (map (getTransaction conn) signatures)"
  from none have "\<not> list_ex isl (map (getTransaction conn) signatures)"
    by (simp add: list_ex_iff rejects_def)
  then have all: "promise_all (map (getTransaction conn) signatures) = Inr ?txs"
    by (rule promise_all_fulfilled)
  have same: "tx_hit target (projr (getTransaction conn s)) = hit conn target s"
    if "s \<in> set signatures" for s
    using that none
    by (cases "getTransaction conn s")
       (auto simp: tx_hit_def hit_def rejects_def list_ex_iff split: option.splits)
  have "filter (tx_hit target) ?txs =
        map (\<lambda>s. projr (getTransaction conn s)) (filter (hit conn target) signatures)"
    using same by (simp add: filter_map o_def cong: filter_cong)
  then have "length (filter (tx_hit target) ?txs) = length (filter (hit conn target) signatures)"
    by simp
  with assms all
  show "\<exists>interactions.
          checkDefiInteractions w conn address ps = Inr interactions \<and>
          interaction_count interactions target =
            count_list ps target * length (filter (hit conn target) signatures)"
    by (simp add: checkDefiInteractions_def checkDefiInteractions_try_def
          interaction_count_tally_transactions interaction_count_empty)
next
  assume "list_ex (rejects conn) signatures"
  then have "list_ex isl (map (getTransaction conn) signatures)"
    by (simp add: list_ex_iff rejects_def)
  then obtain e where "promise_all (map (getTransaction conn) signatures) = Inl e"
    using promise_all_rejects by blast
  with assms show "checkDefiInteractions w conn address ps = Inr []"
    by (simp add: checkDefiInteractions_def checkDefiInteractions_try_def)
qed

theorem null_lookups_skipped_rejections_abort_witness:
  "PublicKey active_world ''wallet'' = Inr ''wallet'' \<and>
   getSignaturesForAddress active_connection ''wallet'' 50 =
     Inr [''s1'', ''s2'', ''s3'', ''s4'', ''s5'', ''s6''] \<and>
   \<not> list_ex (rejects active_connection) [''s1'', ''s2'', ''s3'', ''s4'', ''s5'', ''s6''] \<and>
   getTransaction active_connection ''s6'' = Inr None \<and>
   (\<exists>interactions.
      checkDefiInteractions active_world active_connection ''wallet'' [JUP] = Inr interactions \<and>
      interaction_count interactions JUP = 5)"
proof -
  let ?sigs = "[''s1'', ''s2'', ''s3'', ''s4'', ''s5'', ''s6'']"
  have k: "PublicKey active_world ''wallet'' = Inr ''wallet''"
    by (simp add: active_world_def)
  have s: "getSignaturesForAddress active_connection ''wallet'' 50 = Inr ?sigs"
    by (simp add: active_connection_def)
  have n: "\<not> list_ex (rejects active_connection) ?sigs"
    by (simp add: rejects_def active_connection_def)
  have z: "getTransaction active_connection ''s6'' = Inr None"
    by (simp add: active_connection_def)
  have c: "count_list [JUP] JUP * length (filter (hit active_connection JUP) ?sigs) = 5"
    by (simp add: hit_def active_connection_def JUP_def)
  from null_lookups_skipped_rejections_abort [OF k s, of "[JUP]" JUP] n c
  have "\<exists>interactions.
      checkDefiInteractions active_world active_connection ''wallet'' [JUP] = Inr interactions \<and>
      interaction_count interactions JUP = 5"
    by simp
  with k s n z show ?thesis by simp
qed

text \<open>
  C5, as stated, fails: five lookups resolve to transactions that reference the target and
  the sixth rejects; the call returns the empty mapping and the five hits are not tallied.
\<close>

theorem rejected_lookup_aborts_batch:
  "getSignaturesForAddress flaky_connection ''wallet'' 50 =
     Inr [''s1'', ''s2'', ''s3'', ''s4'', ''s5'', ''s6''] \<and>
   getTransaction flaky_connection ''s1'' = Inr (Some (TransactionResponse [''wallet'', JUP])) \<and>
   getTransaction flaky_connection ''s6'' = Inl (Error ''fetch failed'') \<and>
   checkDefiInteractions active_world flaky_connection ''wallet'' [JUP] = Inr [] \<and>
   interaction_count [] JUP = 0"
  by (simp add: checkDefiInteractions_def checkDefiInteractions_try_def
        active_world_def active_connection_def flaky_connection_def interaction_count_def)

text \<open>
  C6. For every target address, the count that \<open>checkDefiInteractions\<close> returns is at
  most 50. The watch-list is a set of addresses (no address is listed twice, as in every
  entry of the table) and the ledger answers the request for 50 signatures with at most
  50: each fetched transaction then increments the counter of a target at most once.
\<close>

theorem interaction_count_within_window:
  assumes "distinct protocolAddresses"
    and "window_respected w conn address"
  shows "\<exists>interactions.
           checkDefiInteractions w conn address protocolAddresses = Inr interactions \<and>
           interaction_count interactions target \<le> 50"
proof -
  let ?n = "case PublicKey w address of
              Inl e \<Rightarrow> 0
            | Inr key \<Rightarrow> (case getSignaturesForAddress conn key 50 of
                            Inl e \<Rightarrow> 0 | Inr signatures \<Rightarrow> length signatures)"
  have window: "?n \<le> 50"
    using assms(2) by (simp add: window_respected_def split: sum.splits)
  have once: "count_list protocolAddresses target \<le> 1"
    using assms(1) by (rule count_list_distinct)
  have "count_list protocolAddresses target * ?n \<le> 1 * 50"
    using once window by (rule mult_le_mono)
  then have "interaction_count (interactions_result w conn address protocolAddresses) target \<le> 50"
    using interactions_result_bound [of w conn address protocolAddresses target] by simp
  then show ?thesis
    by (simp add: checkDefiInteractions_eq)
qed

theorem interaction_count_within_window_witness:
  "distinct (requiredTokens (AIRDROP_CRITERIA ! 0)) \<and>
   window_respected active_world busy_connection ''wallet'' \<and>
   checkDefiInteractions active_world busy_connection ''wallet''
     (requiredTokens (AIRDROP_CRITERIA ! 0)) = Inr [(JUP, 50)] \<and>
   interaction_count [(JUP, 50)] JUP \<le> 50"
proof -
  have d: "distinct (requiredTokens (AIRDROP_CRITERIA ! 0))"
    by (simp add: AIRDROP_CRITERIA_def)
  have win: "window_respected active_world busy_connection ''wallet''"
    by code_simp
  have run: "checkDefiInteractions active_world busy_connection ''wallet''
               (requiredTokens (AIRDROP_CRITERIA ! 0)) = Inr [(JUP, 50)]"
    by code_simp
  from interaction_count_within_window [OF d win, of JUP] run
  have "interaction_count [(JUP, 50)] JUP \<le> 50" by simp
  with d win run show ?thesis by simp
qed

text \<open>
  C10. When the balances index answers with a success status and a body whose
  \<open>tokens\<close> member is missing or \<open>null\<close>, \<open>getTokenHoldings\<close> returns the
  empty list; no criterion then has its required tokens, and no result is eligible.
\<close>

theorem missing_tokens_field_gives_no_holdings:
  assumes "fetch w (balances_url w address) = Inr response"
    and "ok response"
    and "json response = JsonValue TokensAbsent \<or> json response = JsonValue TokensNull"
  shows "getTokenHoldings w address = Inr [] \<and>
         \<not> hasRequiredTokens [] criteria \<and>
         (\<exists>results. checkAirdropEligibility w conn address = Inr results \<and>
                    length results = length AIRDROP_CRITERIA \<and>
                    list_all (\<lambda>r. \<not> eligible r) results)"
proof -
  have empty: "holdings_result w address = []"
    using assms by (auto simp: holdings_result_def getTokenHoldings_try_def)
  have none: "\<not> hasRequiredTokens [] c" for c
    by (simp add: hasRequiredTokens_def list_ex_iff)
  have "\<not> eligible (verdict w conn address c)" for c
    by (simp add: verdict_def empty eligible_decide none)
  then have "list_all (\<lambda>r. \<not> eligible r) (map (verdict w conn address) AIRDROP_CRITERIA)"
    by (simp add: list_all_iff)
  with empty none show ?thesis
    by (simp add: getTokenHoldings_eq checkAirdropEligibility_def
          checkAirdropEligibility_table_eq)
qed

theorem missing_tokens_field_gives_no_holdings_witness:
  "fetch untagged_world (balances_url untagged_world ''wallet'') =
     Inr (FetchResponse True 200 (JsonValue TokensAbsent)) \<and>
   getTokenHoldings untagged_world ''wallet'' = Inr [] \<and>
   (\<exists>results. checkAirdropEligibility untagged_world active_connection ''wallet'' = Inr results \<and>
              length results = length AIRDROP_CRITERIA \<and>
              list_all (\<lambda>r. \<not> eligible r) results)"
proof -
  have f: "fetch untagged_world (balances_url untagged_world ''wallet'') =
             Inr (FetchResponse True 200 (JsonValue TokensAbsent))"
    by (simp add: untagged_world_def active_world_def)
  have o: "ok (FetchResponse True 200 (JsonValue TokensAbsent))" by simp
  have j: "json (FetchResponse True 200 (JsonValue TokensAbsent)) = JsonValue TokensAbsent \<or>
           json (FetchResponse True 200 (JsonValue TokensAbsent)) = JsonValue TokensNull"
    by simp
  from missing_tokens_field_gives_no_holdings [OF f o j, of "hd AIRDROP_CRITERIA" active_connection] f
  show ?thesis by simp
qed

text \<open>
  C4, as amended. On a request with \<open>action=check\<close> whose account is a valid on-curve
  address, once the evaluator has returned its results: the handler of the first revision
  answers with the summary message alone when no criterion is eligible; the handler of the
  second revision answers with the payload that \<open>createPostResponse\<close> builds from the
  transaction of \<open>createDummyTransaction\<close> and the summary message, when a criterion is
  eligible and when none is, and never answers with a message alone.
\<close>

theorem post_payload_by_revision:
  assumes "action request = Some ''check''"
    and "request_json request = Inr userAddress"
    and "PublicKey w userAddress = Inr key"
    and "isOnCurve w key"
    and "Connection w (rpc_endpoint w) = Inr connection"
    and "checkAirdropEligibility w connection userAddress = Inr results"
  shows "(filter eligible results = [] \<longrightarrow>
            POST w request =
              Inr \<lparr>http_status = 200,
                   http_body = MessageBody (no_eligible_message results),
                   http_headers = [ACTIONS_CORS_HEADERS]\<rparr>) \<and>
         (\<forall>transaction payload.
            createDummyTransaction w connection userAddress = Inr transaction \<longrightarrow>
            createPostResponse w
              \<lparr>fields_transaction = transaction,
               fields_message =
                 (if filter eligible results = [] then no_eligible_message results
                  else found_message results),
               fields_type = ''transaction''\<rparr> = Inr payload \<longrightarrow>
            POST2 w request =
              Inr \<lparr>http_status = 200, http_body = PayloadBody payload,
                   http_headers = action_headers\<rparr>) \<and>
         (\<forall>r m. POST2 w request = Inr r \<longrightarrow> http_body r \<noteq> MessageBody m)"
proof (intro conjI impI allI)
  assume "filter eligible results = []"
  with assms show "POST w request =
      Inr \<lparr>http_status = 200, http_body = MessageBody (no_eligible_message results),
           http_headers = [ACTIONS_CORS_HEADERS]\<rparr>"
    by (simp add: POST_def POST_try_def)
next
  fix transaction payload
  assume "createDummyTransaction w connection userAddress = Inr transaction"
    and "createPostResponse w
           \<lparr>fields_transaction = transaction,
            fields_message =
              (if filter eligible results = [] then no_eligible_message results
               else found_message results),
            fields_type = ''transaction''\<rparr> = Inr payload"
  with assms show "POST2 w request =
      Inr \<lparr>http_status = 200, http_body = PayloadBody payload, http_headers = action_headers\<rparr>"
    by (rule POST2_success)
next
  fix r m
  assume "POST2 w request = Inr r"
  then show "http_body r \<noteq> MessageBody m"
    by (rule POST2_never_message)
qed

theorem post_payload_by_revision_witness:
  "action check_request = Some ''check'' \<and>
   isOnCurve quiet_world ''wallet'' \<and>
   isOnCurve active_world ''wallet'' \<and>
   POST quiet_world check_request =
     Inr \<lparr>http_status = 200,
          http_body = MessageBody
            (''No eligible airdrops found.'' @ newline @
             ''Not eligible for JupiterV2. Need 5 interactions, found 0.'' @ newline @
             ''Not eligible for Orca. Need 3 interactions, found 0.''),
          http_headers = [ACTIONS_CORS_HEADERS]\<rparr> \<and>
   POST2 active_world check_request =
     Inr \<lparr>http_status = 200,
          http_body = PayloadBody (ActionPostResponse ''AQAB''
            (Some (''Found 1 eligible airdrops:'' @ newline @
                   ''Eligible for JupiterV2 airdrop! Found 5 interactions.'' @ newline @
                   ''Not eligible for Orca. Need 3 interactions, found 0.''))),
          http_headers = action_headers\<rparr>"
proof -
  let ?quiet = "[EligibilityResult False ''JupiterV2''
            ''Not eligible for JupiterV2. Need 5 interactions, found 0.'',
          EligibilityResult False ''Orca''
            ''Not eligible for Orca. Need 3 interactions, found 0.'']"
  let ?active = "[EligibilityResult True ''JupiterV2''
            ''Eligible for JupiterV2 airdrop! Found 5 interactions.'',
          EligibilityResult False ''Orca''
            ''Not eligible for Orca. Need 3 interactions, found 0.'']"
  let ?tx = "\<lparr>instructions = [Transfer ''wallet'' ''wallet''],
             recentBlockhash = Some ''blockhash'', feePayer = Some ''wallet''\<rparr>"
  let ?payload = "ActionPostResponse ''AQAB''
            (Some (''Found 1 eligible airdrops:'' @ newline @
                   ''Eligible for JupiterV2 airdrop! Found 5 interactions.'' @ newline @
                   ''Not eligible for Orca. Need 3 interactions, found 0.''))"
  have a: "action check_request = Some ''check''"
    and j: "request_json check_request = Inr ''wallet''"
    by (simp_all add: check_request_def)
  have k: "PublicKey quiet_world ''wallet'' = Inr ''wallet''"
    and c: "isOnCurve quiet_world ''wallet''"
    and n: "Connection quiet_world (rpc_endpoint quiet_world) = Inr quiet_connection"
    by (simp_all add: quiet_world_def active_world_def)
  have k': "PublicKey active_world ''wallet'' = Inr ''wallet''"
    and c': "isOnCurve active_world ''wallet''"
    and n': "Connection active_world (rpc_endpoint active_world) = Inr active_connection"
    by (simp_all add: active_world_def)
  have none: "filter eligible ?quiet = []" by simp
  have msg: "no_eligible_message ?quiet =
      ''No eligible airdrops found.'' @ newline @
      ''Not eligible for JupiterV2. Need 5 interactions, found 0.'' @ newline @
      ''Not eligible for Orca. Need 3 interactions, found 0.''"
    by (simp add: no_eligible_message_def)
  from post_payload_by_revision [OF a j k c n quiet_results] none
  have first: "POST quiet_world check_request =
          Inr \<lparr>http_status = 200, http_body = MessageBody (no_eligible_message ?quiet),
               http_headers = [ACTIONS_CORS_HEADERS]\<rparr>"
    by blast
  have t: "createDummyTransaction active_world active_connection ''wallet'' = Inr ?tx"
    by (simp add: createDummyTransaction_def active_world_def active_connection_def)
  have p: "createPostResponse active_world
             \<lparr>fields_transaction = ?tx,
              fields_message =
                (if filter eligible ?active = [] then no_eligible_message ?active
                 else found_message ?active),
              fields_type = ''transaction''\<rparr> = Inr ?payload"
    by (simp add: active_world_def sample_createPostResponse_def found_message_def digit_def)
  from post_payload_by_revision [OF a j k' c' n' active_results] t p
  have second: "POST2 active_world check_request =
          Inr \<lparr>http_status = 200, http_body = PayloadBody ?payload,
               http_headers = action_headers\<rparr>"
    by blast
  from a c c' first second msg show ?thesis by simp
qed

text \<open>
  C4, as stated, fails on the second revision: with no eligible criterion the response
  body is the transaction payload, not the message alone.
\<close>

theorem second_revision_always_sends_transaction:
  "checkAirdropEligibility quiet_world quiet_connection ''wallet'' =
     Inr [EligibilityResult False ''JupiterV2''
            ''Not eligible for JupiterV2. Need 5 interactions, found 0.'',
          EligibilityResult False ''Orca''
            ''Not eligible for Orca. Need 3 interactions, found 0.''] \<and>
   POST2 quiet_world check_request =
     Inr \<lparr>http_status = 200,
          http_body = PayloadBody (ActionPostResponse ''AQAB''
            (Some (''No eligible airdrops found.'' @ newline @
                   ''Not eligible for JupiterV2. Need 5 interactions, found 0.'' @ newline @
                   ''Not eligible for Orca. Need 3 interactions, found 0.''))),
          http_headers = action_headers\<rparr>"
proof -
  let ?results = "[EligibilityResult False ''JupiterV2''
            ''Not eligible for JupiterV2. Need 5 interactions, found 0.'',
          EligibilityResult False ''Orca''
            ''Not eligible for Orca. Need 3 interactions, found 0.'']"
  let ?tx = "\<lparr>instructions = [Transfer ''wallet'' ''wallet''],
             recentBlockhash = Some ''blockhash'', feePayer = Some ''wallet''\<rparr>"
  have a: "action check_request = Some ''check''"
    and j: "request_json check_request = Inr ''wallet''"
    by (simp_all add: check_request_def)
  have k: "PublicKey quiet_world ''wallet'' = Inr ''wallet''"
    and c: "isOnCurve quiet_world ''wallet''"
    and n: "Connection quiet_world (rpc_endpoint quiet_world) = Inr quiet_connection"
    by (simp_all add: quiet_world_def active_world_def)
  have t: "createDummyTransaction quiet_world quiet_connection ''wallet'' = Inr ?tx"
    by (simp add: createDummyTransaction_def quiet_world_def active_world_def
          quiet_connection_def)
  have p: "createPostResponse quiet_world
             \<lparr>fields_transaction = ?tx,
              fields_message =
                (if filter eligible ?results = [] then no_eligible_message ?results
                 else found_message ?results),
              fields_type = ''transaction''\<rparr> =
           Inr (ActionPostResponse ''AQAB''
             (Some (''No eligible airdrops found.'' @ newline @
                    ''Not eligible for JupiterV2. Need 5 interactions, found 0.'' @ newline @
                    ''Not eligible for Orca. Need 3 interactions, found 0.'')))"
    by (simp add: quiet_world_def active_world_def sample_createPostResponse_def
          no_eligible_message_def)
  from POST2_success [OF a j k c n quiet_results t p] quiet_results
  show ?thesis by simp
qed

text \<open>
  C7. For an address with empty holdings and no transaction history, the handler answers
  200 with the message \<open>No eligible airdrops found.\<close> followed by one reason line per
  criterion: \<open>Need 5 interactions, found 0\<close> for JupiterV2 and
  \<open>Need 3 interactions, found 0\<close> for Orca.
\<close>

theorem no_holdings_no_history_message:
  assumes "action request = Some ''check''"
    and "request_json request = Inr userAddress"
    and "PublicKey w userAddress = Inr key"
    and "isOnCurve w key"
    and "Connection w (rpc_endpoint w) = Inr connection"
    and "getTokenHoldings w userAddress = Inr []"
    and "getSignaturesForAddress connection key 50 = Inr []"
  shows "POST w request =
           Inr \<lparr>http_status = 200,
                http_body = MessageBody
                  (''No eligible airdrops found.'' @ newline @
                   ''Not eligible for JupiterV2. Need 5 interactions, found 0.'' @ newline @
                   ''Not eligible for Orca. Need 3 interactions, found 0.''),
                http_headers = [ACTIONS_CORS_HEADERS]\<rparr>"
proof -
  have tally: "checkDefiInteractions w connection userAddress ps = Inr []" for ps
    using assms(3,7) by (simp add: checkDefiInteractions_def checkDefiInteractions_try_def)
  have results: "checkAirdropEligibility w connection userAddress =
     Inr [EligibilityResult False ''JupiterV2''
            ''Not eligible for JupiterV2. Need 5 interactions, found 0.'',
          EligibilityResult False ''Orca''
            ''Not eligible for Orca. Need 3 interactions, found 0.'']"
    using assms(6)
    by (simp add: checkAirdropEligibility_def checkAirdropEligibility_table_def tally
        AIRDROP_CRITERIA_def decide_def hasRequiredTokens_def totalInteractions_def
        map_values_def show_int_def digit_def)
  show ?thesis
    using assms(1-5)
    by (simp add: POST_def POST_try_def results no_eligible_message_def)
qed

theorem no_holdings_no_history_message_witness:
  "action check_request = Some ''check'' \<and>
   getTokenHoldings quiet_world ''wallet'' = Inr [] \<and>
   getSignaturesForAddress quiet_connection ''wallet'' 50 = Inr [] \<and>
   POST quiet_world check_request =
     Inr \<lparr>http_status = 200,
          http_body = MessageBody
            (''No eligible airdrops found.'' @ newline @
             ''Not eligible for JupiterV2. Need 5 interactions, found 0.'' @ newline @
             ''Not eligible for Orca. Need 3 interactions, found 0.''),
          http_headers = [ACTIONS_CORS_HEADERS]\<rparr>"
proof -
  have a: "action check_request = Some ''check''"
    and j: "request_json check_request = Inr ''wallet''"
    by (simp_all add: check_request_def)
  have k: "PublicKey quiet_world ''wallet'' = Inr ''wallet''"
    and c: "isOnCurve quiet_world ''wallet''"
    and n: "Connection quiet_world (rpc_endpoint quiet_world) = Inr quiet_connection"
    by (simp_all add: quiet_world_def active_world_def)
  have h: "getTokenHoldings quiet_world ''wallet'' = Inr []"
    by (simp add: getTokenHoldings_def getTokenHoldings_try_def quiet_world_def active_world_def)
  have s: "getSignaturesForAddress quiet_connection ''wallet'' 50 = Inr []"
    by (simp add: quiet_connection_def)
  from no_holdings_no_history_message [OF a j k c n h s] a h s
  show ?thesis by simp
qed

text \<open>
  C8. A POST request with \<open>action=check\<close> whose account fails the on-curve check is
  answered with status 500 and an \<open>error\<close> member that contains
  \<open>Invalid Solana address\<close>, by both revisions of the handler.
\<close>

theorem off_curve_address_rejected:
  assumes "action request = Some ''check''"
    and "request_json request = Inr userAddress"
    and "PublicKey w userAddress = Inr key"
    and "\<not> isOnCurve w key"
  shows "POST w request =
           Inr \<lparr>http_status = 500,
                http_body = ErrorBody
                  (''Failed to process airdrop check: '' @ ''Invalid Solana address''),
                http_headers = [ACTIONS_CORS_HEADERS]\<rparr> \<and>
         POST2 w request =
           Inr \<lparr>http_status = 500,
                http_body = ErrorBody
                  (''Failed to process airdrop check: '' @ ''Invalid Solana address''),
                http_headers = action_headers\<rparr>"
  using assms
  by (simp add: POST_def POST_try_def POST_catch_def POST2_def POST2_try_def POST2_catch_def)

theorem off_curve_address_rejected_witness:
  "action check_request = Some ''check'' \<and>
   \<not> isOnCurve offcurve_world ''wallet'' \<and>
   POST offcurve_world check_request =
     Inr \<lparr>http_status = 500,
          http_body = ErrorBody ''Failed to process airdrop check: Invalid Solana address'',
          http_headers = [ACTIONS_CORS_HEADERS]\<rparr>"
proof -
  have a: "action check_request = Some ''check''"
    and j: "request_json check_request = Inr ''wallet''"
    by (simp_all add: check_request_def)
  have k: "PublicKey offcurve_world ''wallet'' = Inr ''wallet''"
    and c: "\<not> isOnCurve offcurve_world ''wallet''"
    by (simp_all add: offcurve_world_def active_world_def)
  from off_curve_address_rejected [OF a j k c] a c
  show ?thesis by simp
qed

end
